theory Spec2Isabelle
  imports Main "HOL-Library.Word"
begin

section \<open>actspy: terminal activity polling\<close>

text \<open>
  A shallow embedding of \<^verbatim>\<open>actspy.c\<close>. C strings are modelled by the list of their
  characters before the terminating NUL, \<^verbatim>\<open>time_t\<close> and \<^verbatim>\<open>int\<close> values by \<open>int\<close>,
  a \<^verbatim>\<open>char **\<close> vector ending in NULL by the list of its strings, and a pointer that
  may be NULL by an \<open>option\<close>. Everything the program does to the outside world is an
  \<open>event\<close> of a trace; everything it reads from the outside world (the command line,
  the result of \<^verbatim>\<open>ttyname\<close>, the clock, the utmp records, the result of \<^verbatim>\<open>stat\<close>, the
  interrupt flag) is a parameter.
\<close>

subsection \<open>Library functions used by the program\<close>

text \<open>
  \<^verbatim>\<open>strcmp\<close>: the C standard fixes only the sign of the result, which is decided by the
  first pair of characters that differ, read as \<^verbatim>\<open>unsigned char\<close>.
\<close>

fun strcmp :: "string \<Rightarrow> string \<Rightarrow> int" where
  "strcmp [] [] = 0"
| "strcmp [] (b # bs) = - 1"
| "strcmp (a # as) [] = 1"
| "strcmp (a # as) (b # bs) =
     (if a = b then strcmp as bs
      else if (of_char a :: nat) < of_char b then - 1 else 1)"

subsection \<open>The user list\<close>

text \<open>
  \<^verbatim>\<open>strstrlist\<close> walks the NULL-terminated vector and returns the entry it stopped at:
  the first entry equal to the needle, or the terminating NULL.
\<close>

fun strstrlist :: "string list \<Rightarrow> string \<Rightarrow> string option" where
  "strstrlist [] needle = None"
| "strstrlist (h # haystack) needle =
     (if strcmp h needle = 0 then Some h else strstrlist haystack needle)"

subsection \<open>Data\<close>

record options =
  poll_interval :: int
  watch_input :: int
  watch_output :: int
  bell :: int
  watched_users :: "string list"

text \<open>The fields of \<^verbatim>\<open>struct utmpx\<close> and of \<^verbatim>\<open>struct stat\<close> that the program reads.\<close>

record utmpx =
  ut_type :: int
  ut_line :: string
  ut_user :: string

record stat =
  st_atime :: int
  st_mtime :: int

definition USER_PROCESS :: int where
  "USER_PROCESS = 7"

definition UT_LINESIZE :: nat where
  "UT_LINESIZE = 32"

datatype event =
    EvStdout string
  | EvStderr string
  | EvTime int
  | EvSleep "32 word"
  | EvSetutxent
  | EvEndutxent

text \<open>
  The one operation of the program that has no defined result: \<^verbatim>\<open>strcmp\<close> on a null
  pointer.
\<close>

datatype fault = NullDereference

subsection \<open>One utmp record of a scan\<close>

text \<open>
  \<^verbatim>\<open>char tty_path[6 + UT_LINESIZE] = "/dev/"; strncat(tty_path, ut_line, sizeof(tty_path))\<close>:
  \<^verbatim>\<open>strncat\<close> appends at most its third argument many characters. A \<^verbatim>\<open>ut_line\<close> that is
  terminated inside its field of \<^verbatim>\<open>UT_LINESIZE\<close> bytes is appended whole.
\<close>

definition tty_path_of :: "string \<Rightarrow> string" where
  "tty_path_of line = ''/dev/'' @ take (6 + UT_LINESIZE) line"

text \<open>The condition of lines 182 to 184, under which a record with activity is skipped.\<close>

definition user_skipped :: "string list \<Rightarrow> string \<Rightarrow> bool" where
  "user_skipped users user \<longleftrightarrow> users \<noteq> [] \<and> strstrlist users user = None"

text \<open>\<^verbatim>\<open>printf("%s; %s; %s\n", last_poll_string, ut_line, ut_user)\<close>\<close>

definition report_line :: "string \<Rightarrow> utmpx \<Rightarrow> string" where
  "report_line last_poll_string e =
     last_poll_string @ ''; '' @ ut_line e @ ''; '' @ ut_user e @ [CHR 0x0A]"

text \<open>
  The body of the inner \<^verbatim>\<open>while\<close> loop for one record. \<open>stat_call path\<close> is what the
  call \<^verbatim>\<open>stat(path, &tty_stat)\<close> gives: its return value, which the program drops, and
  the contents of \<^verbatim>\<open>tty_stat\<close> after the call, which the program reads. When the call
  fails the buffer is left as it was, and it was never initialised.
\<close>

definition scan_entry ::
  "options \<Rightarrow> string option \<Rightarrow> int \<Rightarrow> string \<Rightarrow> (string \<Rightarrow> int \<times> stat) \<Rightarrow> utmpx
     \<Rightarrow> fault + event list" where
  "scan_entry opts my_tty_path last_poll last_poll_string stat_call e =
     (if ut_type e \<noteq> USER_PROCESS then Inr []
      else
        let tty_path = tty_path_of (ut_line e) in
        case my_tty_path of
          None \<Rightarrow> Inl NullDereference
        | Some my \<Rightarrow>
            if strcmp my tty_path = 0 then Inr []
            else
              let tty_stat = snd (stat_call tty_path) in
              if (watch_input opts \<noteq> 0 \<and> st_atime tty_stat \<ge> last_poll) \<or>
                 (watch_output opts \<noteq> 0 \<and> st_mtime tty_stat \<ge> last_poll)
              then
                if user_skipped (watched_users opts) (ut_user e) then Inr []
                else Inr ((if bell opts \<noteq> 0 then [EvStdout [CHR 0x07]] else []) @
                          [EvStdout (report_line last_poll_string e)])
              else Inr [])"

text \<open>
  The inner loop over the records that \<^verbatim>\<open>getutxent\<close> returns until it returns NULL. The
  result is what was printed and, when the scan did not get to its end, why.
\<close>

fun scan ::
  "options \<Rightarrow> string option \<Rightarrow> int \<Rightarrow> string \<Rightarrow> (string \<Rightarrow> int \<times> stat) \<Rightarrow> utmpx list
     \<Rightarrow> event list \<times> fault option" where
  "scan opts my_tty_path last_poll last_poll_string stat_call [] = ([], None)"
| "scan opts my_tty_path last_poll last_poll_string stat_call (e # es) =
     (case scan_entry opts my_tty_path last_poll last_poll_string stat_call e of
        Inl f \<Rightarrow> ([], Some f)
      | Inr out \<Rightarrow>
          (case scan opts my_tty_path last_poll last_poll_string stat_call es of
             (evs, r) \<Rightarrow> (out @ evs, r)))"

subsection \<open>Command line\<close>

text \<open>
  \<^verbatim>\<open>getopt\<close> as POSIX specifies it, which is what the feature macros of the file select:
  scanning stops at the first argument that is not an option, at \<^verbatim>\<open>-\<close> alone, and
  after \<^verbatim>\<open>--\<close>. With \<^verbatim>\<open>opterr = 0\<close> it prints nothing. \<open>nextchar\<close> holds the characters
  of the current argument that are still to be read; \<open>argv_optind\<close> is the vector
  \<^verbatim>\<open>argv + optind\<close> of the arguments after those that \<^verbatim>\<open>getopt\<close> has taken.
\<close>

record getopt_state =
  nextchar :: string
  argv_optind :: "string list"
  optarg :: string
  optopt :: char

text \<open>
  Looking a character up in the option string: \<open>None\<close> when it is no option,
  \<open>Some True\<close> when a colon follows it, so that it takes an argument.
\<close>

fun optspec :: "string \<Rightarrow> char \<Rightarrow> bool option" where
  "optspec [] c = None"
| "optspec (x # xs) c =
     (if x = c then Some (case xs of [] \<Rightarrow> False | y # _ \<Rightarrow> y = CHR '':'')
      else optspec xs c)"

text \<open>
  One option character \<open>c\<close>, with \<open>cs\<close> the rest of its argument and \<open>r\<close> the arguments
  after it. The result is the return value of \<^verbatim>\<open>getopt\<close>.
\<close>

definition getopt_char ::
  "string \<Rightarrow> char \<Rightarrow> string \<Rightarrow> string list \<Rightarrow> getopt_state \<Rightarrow> char option \<times> getopt_state" where
  "getopt_char optstring c cs r st =
     (case (if c = CHR '':'' then None else optspec optstring c) of
        None \<Rightarrow> (Some CHR ''?'', st\<lparr>nextchar := cs, argv_optind := r, optopt := c\<rparr>)
      | Some False \<Rightarrow> (Some c, st\<lparr>nextchar := cs, argv_optind := r\<rparr>)
      | Some True \<Rightarrow>
          if cs \<noteq> [] then (Some c, st\<lparr>nextchar := [], argv_optind := r, optarg := cs\<rparr>)
          else
            (case r of
               [] \<Rightarrow> (Some CHR ''?'', st\<lparr>nextchar := [], argv_optind := [], optopt := c\<rparr>)
             | a # r' \<Rightarrow> (Some c, st\<lparr>nextchar := [], argv_optind := r', optarg := a\<rparr>)))"

text \<open>One call of \<^verbatim>\<open>getopt\<close>; \<open>None\<close> is the return value \<^verbatim>\<open>-1\<close>.\<close>

definition getopt :: "string \<Rightarrow> getopt_state \<Rightarrow> char option \<times> getopt_state" where
  "getopt optstring st =
     (case nextchar st of
        c # cs \<Rightarrow> getopt_char optstring c cs (argv_optind st) st
      | [] \<Rightarrow>
          (case argv_optind st of
             [] \<Rightarrow> (None, st)
           | a # r \<Rightarrow>
               if a = ''--'' then (None, st\<lparr>argv_optind := r\<rparr>)
               else
                 (case a of
                    d # c # cs \<Rightarrow>
                      if d = CHR ''-'' then getopt_char optstring c cs r st else (None, st)
                  | _ \<Rightarrow> (None, st))))"

text \<open>
  \<^verbatim>\<open>sscanf(optarg, "%ld", &n)\<close>: white space is skipped, then an optional sign and the
  longest run of decimal digits are read. The result is the return value together with
  the number stored, if one is: \<^verbatim>\<open>EOF\<close> when the input ends before anything is read,
  \<open>0\<close> when what is read is no number, \<open>1\<close> otherwise. A number outside the range of
  \<^verbatim>\<open>long\<close> is stored as the nearest bound, as \<^verbatim>\<open>strtol\<close> does.
\<close>

definition isspace :: "char \<Rightarrow> bool" where
  "isspace c \<longleftrightarrow> c \<in> set [CHR '' '', CHR 0x09, CHR 0x0A, CHR 0x0B, CHR 0x0C, CHR 0x0D]"

definition isdigit :: "char \<Rightarrow> bool" where
  "isdigit c \<longleftrightarrow> (48::nat) \<le> of_char c \<and> of_char c \<le> (57::nat)"

definition digits_value :: "string \<Rightarrow> int" where
  "digits_value ds = foldl (\<lambda>n c. 10 * n + (int (of_char c) - 48)) 0 ds"

definition LONG_MAX :: int where
  "LONG_MAX = 2 ^ 63 - 1"

definition LONG_MIN :: int where
  "LONG_MIN = - (2 ^ 63)"

definition EOF :: int where
  "EOF = - 1"

definition sscanf_ld :: "string \<Rightarrow> int \<times> int option" where
  "sscanf_ld s =
     (case dropWhile isspace s of
        [] \<Rightarrow> (EOF, None)
      | c # cs \<Rightarrow>
          let signed = (c = CHR ''-'' \<or> c = CHR ''+'');
              ds = takeWhile isdigit (if signed then cs else c # cs);
              n = (if c = CHR ''-'' then - digits_value ds else digits_value ds)
          in if ds = [] then (0, None) else (1, Some (max LONG_MIN (min LONG_MAX n))))"

text \<open>The text that \<^verbatim>\<open>-h\<close> prints; \<open>prog\<close> is \<^verbatim>\<open>argv[0]\<close>.\<close>

definition usage :: "string \<Rightarrow> string" where
  "usage prog =
     ''Usage: '' @ prog @ '' [-bhio] [-t TIME] [USER]...'' @ [CHR 0x0A] @
     ''  -b       Ring the bell when a TTY is active.'' @ [CHR 0x0A] @
     ''  -h       Show this help.'' @ [CHR 0x0A] @
     ''  -i       Show when a TTY receives input data.'' @ [CHR 0x0A] @
     ''  -o       Show when a TTY sends output data.'' @ [CHR 0x0A] @
     ''  -t TIME  Poll interval in seconds. Default and minimum 1.'' @ [CHR 0x0A] @
     ''  USER     Limit polling to one or more users.'' @ [CHR 0x0A]"

text \<open>
  The \<^verbatim>\<open>while\<close> loop of \<^verbatim>\<open>options_parse\<close>. The result is the return value of
  \<^verbatim>\<open>options_parse\<close>, the options as they are when it returns, and what it printed.
\<close>

function options_parse_loop ::
  "string \<Rightarrow> getopt_state \<Rightarrow> options \<Rightarrow> int \<times> options \<times> event list" where
  "options_parse_loop prog st opts =
     (case getopt ''bhiot:'' st of
        (None, st') \<Rightarrow> (0, opts\<lparr>watched_users := argv_optind st'\<rparr>, [])
      | (Some option_char, st') \<Rightarrow>
          if option_char = CHR ''b'' then options_parse_loop prog st' (opts\<lparr>bell := 1\<rparr>)
          else if option_char = CHR ''h'' then (1, opts, [EvStdout (usage prog)])
          else if option_char = CHR ''i'' then
            options_parse_loop prog st' (opts\<lparr>watch_input := 1\<rparr>)
          else if option_char = CHR ''o'' then
            options_parse_loop prog st' (opts\<lparr>watch_output := 1\<rparr>)
          else if option_char = CHR ''t'' then
            (case sscanf_ld (optarg st') of
               (converted, stored) \<Rightarrow>
                 if converted = 0 then
                   (- 1, opts,
                    [EvStderr (''Invalid timestamp option -t '' @ optarg st' @ ''.'' @ [CHR 0x0A])])
                 else
                   options_parse_loop prog st'
                     (case stored of None \<Rightarrow> opts | Some n \<Rightarrow> opts\<lparr>poll_interval := n\<rparr>))
          else if option_char = CHR ''?'' then
            (- 1, opts,
             [EvStderr
               (if optopt st' = CHR ''t''
                then ''Option -'' @ [optopt st'] @ '' requires an argument.'' @ [CHR 0x0A]
                else ''Unknown command line option -'' @ [optopt st'] @ ''.'' @ [CHR 0x0A])])
          else options_parse_loop prog st' opts)"
  by pat_completeness auto

termination
proof -
  have char_less: "length (nextchar st') + size_list length (argv_optind st')
                    < Suc (length cs + size_list length r)"
    if "getopt_char optstring c cs r st = (Some ch, st')"
    for optstring c cs r st ch st'
    using that
    by (auto simp: getopt_char_def split: option.splits bool.splits if_splits list.splits)
  have less: "length (nextchar st') + size_list length (argv_optind st')
                < length (nextchar st) + size_list length (argv_optind st)"
    if "(Some ch, st') = getopt optstring st" for optstring st ch st'
    using that [symmetric]
    by (auto simp: getopt_def split: list.splits if_splits dest!: char_less)
  show ?thesis
    by (relation "measure (\<lambda>(prog, st, opts).
          length (nextchar st) + size_list length (argv_optind st))")
       (auto dest: less)
qed

text \<open>
  \<^verbatim>\<open>options_parse\<close>: the defaults, then the loop from \<^verbatim>\<open>optind = 1\<close>. A null
  \<^verbatim>\<open>argv[0]\<close> is printed by \<^verbatim>\<open>printf\<close> as \<^verbatim>\<open>(null)\<close>.
\<close>

definition options_parse :: "string list \<Rightarrow> int \<times> options \<times> event list" where
  "options_parse argv =
     options_parse_loop (case argv of [] \<Rightarrow> ''(null)'' | prog # _ \<Rightarrow> prog)
       \<lparr>nextchar = [], argv_optind = tl argv, optarg = [], optopt = CHR ''?''\<rparr>
       \<lparr>poll_interval = 1, watch_input = 0, watch_output = 0, bell = 0, watched_users = []\<rparr>"

subsection \<open>The poll loop\<close>

text \<open>
  What one cycle reads from the system: the value of \<^verbatim>\<open>time(NULL)\<close>, the records that
  \<^verbatim>\<open>getutxent\<close> returns, the function that answers the calls of \<^verbatim>\<open>stat\<close>, and the
  value of \<^verbatim>\<open>signal_caught_sigint\<close> when the condition of the \<^verbatim>\<open>do\<close> loop is tested.
\<close>

record cycle_env =
  env_time :: int
  env_utmp :: "utmpx list"
  env_stat :: "string \<Rightarrow> int \<times> stat"
  env_sigint :: bool

text \<open>
  What one cycle did: the values of \<^verbatim>\<open>last_poll\<close> and \<^verbatim>\<open>last_poll_string\<close> during the
  cycle and the events of the cycle in their order.
\<close>

record cycle_run =
  run_last_poll :: int
  run_last_poll_string :: string
  run_events :: "event list"

text \<open>
  How a run ends: with an exit status, with a fault, or still polling when the cycles
  that the environment describes are used up.
\<close>

datatype outcome = Exited int | Faulted fault | Running

definition EXIT_FAILURE :: int where
  "EXIT_FAILURE = 1"

text \<open>
  The body of the \<^verbatim>\<open>do\<close> loop. \<open>ctime\<close> is the library function of that name; the
  program cuts the last character, the newline, off its result. The argument of
  \<^verbatim>\<open>sleep\<close> is an \<^verbatim>\<open>unsigned int\<close>, to which the interval is converted.
\<close>

definition cycle ::
  "options \<Rightarrow> string option \<Rightarrow> (int \<Rightarrow> string) \<Rightarrow> cycle_env \<Rightarrow> cycle_run \<times> fault option" where
  "cycle opts my_tty_path ctime env =
     (let last_poll = env_time env;
          last_poll_string = butlast (ctime last_poll)
      in case scan opts my_tty_path last_poll last_poll_string (env_stat env) (env_utmp env) of
           (out, r) \<Rightarrow>
             (\<lparr>run_last_poll = last_poll,
               run_last_poll_string = last_poll_string,
               run_events =
                 [EvTime last_poll, EvSleep (word_of_int (poll_interval opts)), EvSetutxent]
                 @ out @ (case r of None \<Rightarrow> [EvEndutxent] | Some f \<Rightarrow> [])\<rparr>,
              r))"

text \<open>
  The \<^verbatim>\<open>do\<close> loop, one cycle for each element of the environment. Control that reaches
  the end of \<^verbatim>\<open>main\<close> gives the exit status 0.
\<close>

fun poll_loop ::
  "options \<Rightarrow> string option \<Rightarrow> (int \<Rightarrow> string) \<Rightarrow> cycle_env list
     \<Rightarrow> cycle_run list \<times> outcome" where
  "poll_loop opts my_tty_path ctime [] = ([], Running)"
| "poll_loop opts my_tty_path ctime (env # envs) =
     (case cycle opts my_tty_path ctime env of
        (run, Some f) \<Rightarrow> ([run], Faulted f)
      | (run, None) \<Rightarrow>
          if env_sigint env then ([run], Exited 0)
          else
            (case poll_loop opts my_tty_path ctime envs of
               (runs, r) \<Rightarrow> (run # runs, r)))"

text \<open>
  \<^verbatim>\<open>main\<close>: \<open>my_tty_path\<close> is the result of \<^verbatim>\<open>ttyname(STDOUT_FILENO)\<close>, \<open>None\<close> when it
  is NULL. The result is what was printed before the loop, the cycles of the loop, and
  how the run ended.
\<close>

definition main ::
  "string list \<Rightarrow> string option \<Rightarrow> (int \<Rightarrow> string) \<Rightarrow> cycle_env list
     \<Rightarrow> event list \<times> cycle_run list \<times> outcome" where
  "main argv my_tty_path ctime envs =
     (case options_parse argv of
        (rc, opts, printed) \<Rightarrow>
          if rc \<noteq> 0 then (printed, [], Exited EXIT_FAILURE)
          else
            (case poll_loop opts my_tty_path ctime envs of
               (runs, r) \<Rightarrow> (printed, runs, r)))"

section \<open>Properties\<close>

subsection \<open>Auxiliary facts\<close>

lemma strcmp_eq_0_iff: "strcmp a b = 0 \<longleftrightarrow> a = b"
  by (induction a b rule: strcmp.induct) auto

lemma strstrlist_eq: "strstrlist users s = (if s \<in> set users then Some s else None)"
  by (induction users) (auto simp: strcmp_eq_0_iff)

lemma scan_no_fault: "snd (scan opts (Some my) lp lps sc es) = None"
  by (induction es) (auto simp: scan_entry_def Let_def split: sum.splits prod.splits)

lemma scan_append:
  "scan opts my lp lps sc (es1 @ es2) =
     (case scan opts my lp lps sc es1 of
        (out, Some f) \<Rightarrow> (out, Some f)
      | (out, None) \<Rightarrow> (case scan opts my lp lps sc es2 of (out2, r) \<Rightarrow> (out @ out2, r)))"
  by (induction es1) (auto split: sum.splits prod.splits option.splits)

lemma scan_flags_off:
  "watch_input opts = 0 \<Longrightarrow> watch_output opts = 0 \<Longrightarrow> fst (scan opts my lp lps sc es) = []"
  by (induction es) (auto simp: scan_entry_def Let_def split: sum.splits prod.splits option.splits)

lemma poll_loop_length: "length (fst (poll_loop opts my ctime envs)) \<le> length envs"
  by (induction envs) (auto split: prod.splits option.splits)

lemma poll_loop_nth:
  "n < length (fst (poll_loop opts my ctime envs)) \<Longrightarrow>
     fst (poll_loop opts my ctime envs) ! n = fst (cycle opts my ctime (envs ! n))"
proof (induction envs arbitrary: n)
  case Nil
  then show ?case by simp
next
  case (Cons env envs)
  then show ?case
    by (cases n) (auto split: prod.splits option.splits if_splits)
qed

lemma cycle_run:
  "fst (cycle opts my ctime env) =
     \<lparr>run_last_poll = env_time env,
      run_last_poll_string = butlast (ctime (env_time env)),
      run_events =
        [EvTime (env_time env), EvSleep (word_of_int (poll_interval opts)), EvSetutxent]
        @ fst (scan opts my (env_time env) (butlast (ctime (env_time env)))
                 (env_stat env) (env_utmp env))
        @ (case snd (scan opts my (env_time env) (butlast (ctime (env_time env)))
                       (env_stat env) (env_utmp env)) of
             None \<Rightarrow> [EvEndutxent] | Some f \<Rightarrow> [])\<rparr>"
  by (simp add: cycle_def Let_def split: prod.splits)

lemma poll_loop_runs_sleep:
  "run \<in> set (fst (poll_loop opts my ctime envs)) \<Longrightarrow>
     run_events run ! 1 = EvSleep (word_of_int (poll_interval opts))"
  by (auto simp: in_set_conv_nth poll_loop_nth cycle_run)

subsection \<open>The activity test\<close>

text \<open>
  Claim C1. Take a record of a scan that is a user process, whose device is not the
  program's own terminal, whose device metadata \<open>st\<close> were read, and whose user the
  user list lets through. Its report line is printed if and only if input is watched
  and the last input time is at or after the time captured for the cycle, or output is
  watched and the last output time is at or after it. In particular a last input time
  equal to the captured time is reported when input is watched, and when neither input
  nor output is watched no scan prints anything.
\<close>

theorem reportable_iff:
  assumes "ut_type e = USER_PROCESS"
    and "tty_path_of (ut_line e) \<noteq> my"
    and "sc (tty_path_of (ut_line e)) = (0, st)"
    and "\<not> user_skipped (watched_users opts) (ut_user e)"
  shows "((\<exists>out. scan_entry opts (Some my) lp lps sc e = Inr out
              \<and> EvStdout (report_line lps e) \<in> set out)
          \<longleftrightarrow> (watch_input opts \<noteq> 0 \<and> st_atime st \<ge> lp) \<or>
              (watch_output opts \<noteq> 0 \<and> st_mtime st \<ge> lp))
       \<and> (watch_input opts \<noteq> 0 \<and> st_atime st = lp \<longrightarrow>
            (\<exists>out. scan_entry opts (Some my) lp lps sc e = Inr out
              \<and> EvStdout (report_line lps e) \<in> set out))
       \<and> (watch_input opts = 0 \<and> watch_output opts = 0 \<longrightarrow>
            (\<forall>my' sc' es. fst (scan opts my' lp lps sc' es) = []))"
  using assms
  by (auto simp: scan_entry_def Let_def strcmp_eq_0_iff scan_flags_off)

theorem reportable_iff_witness:
  "(\<exists>out. scan_entry
            \<lparr>poll_interval = 1, watch_input = 1, watch_output = 0, bell = 0, watched_users = []\<rparr>
            (Some ''/dev/pts/0'') 100 ''Thu Jan  1 00:01:40 1970''
            (\<lambda>p. (0, \<lparr>st_atime = 100, st_mtime = 50\<rparr>))
            \<lparr>ut_type = 7, ut_line = ''pts/1'', ut_user = ''bob''\<rparr> = Inr out
          \<and> EvStdout (report_line ''Thu Jan  1 00:01:40 1970''
                \<lparr>ut_type = 7, ut_line = ''pts/1'', ut_user = ''bob''\<rparr>) \<in> set out)
   \<and> fst (scan
            \<lparr>poll_interval = 1, watch_input = 0, watch_output = 0, bell = 1, watched_users = []\<rparr>
            (Some ''/dev/pts/0'') 100 ''Thu Jan  1 00:01:40 1970''
            (\<lambda>p. (0, \<lparr>st_atime = 100, st_mtime = 100\<rparr>))
            [\<lparr>ut_type = 7, ut_line = ''pts/1'', ut_user = ''bob''\<rparr>]) = []"
proof -
  have boundary: "\<exists>out. scan_entry
            \<lparr>poll_interval = 1, watch_input = 1, watch_output = 0, bell = 0, watched_users = []\<rparr>
            (Some ''/dev/pts/0'') 100 ''Thu Jan  1 00:01:40 1970''
            (\<lambda>p. (0, \<lparr>st_atime = 100, st_mtime = 50\<rparr>))
            \<lparr>ut_type = 7, ut_line = ''pts/1'', ut_user = ''bob''\<rparr> = Inr out
          \<and> EvStdout (report_line ''Thu Jan  1 00:01:40 1970''
                \<lparr>ut_type = 7, ut_line = ''pts/1'', ut_user = ''bob''\<rparr>) \<in> set out"
    using reportable_iff
          [where e = "\<lparr>ut_type = 7, ut_line = ''pts/1'', ut_user = ''bob''\<rparr>"
             and my = "''/dev/pts/0''"
             and sc = "\<lambda>p. (0, \<lparr>st_atime = 100, st_mtime = 50\<rparr>)"
             and st = "\<lparr>st_atime = 100, st_mtime = 50\<rparr>"
             and opts = "\<lparr>poll_interval = 1, watch_input = 1, watch_output = 0, bell = 0,
                           watched_users = []\<rparr>"
             and lp = 100 and lps = "''Thu Jan  1 00:01:40 1970''"]
    by (simp add: USER_PROCESS_def tty_path_of_def UT_LINESIZE_def user_skipped_def)
  have off: "\<forall>my' sc' es. fst (scan
            \<lparr>poll_interval = 1, watch_input = 0, watch_output = 0, bell = 1, watched_users = []\<rparr>
            my' 100 ''Thu Jan  1 00:01:40 1970'' sc' es) = []"
    using reportable_iff
          [where e = "\<lparr>ut_type = 7, ut_line = ''pts/1'', ut_user = ''bob''\<rparr>"
             and my = "''/dev/pts/0''"
             and sc = "\<lambda>p. (0, \<lparr>st_atime = 100, st_mtime = 100\<rparr>)"
             and st = "\<lparr>st_atime = 100, st_mtime = 100\<rparr>"
             and opts = "\<lparr>poll_interval = 1, watch_input = 0, watch_output = 0, bell = 1,
                           watched_users = []\<rparr>"
             and lp = 100 and lps = "''Thu Jan  1 00:01:40 1970''"]
    by (simp add: USER_PROCESS_def tty_path_of_def UT_LINESIZE_def user_skipped_def)
  show ?thesis
    using boundary off by blast
qed

subsection \<open>The user filter\<close>

text \<open>
  Claim C2. A user passes the filter if and only if the configured list is empty or
  the user's name is, character for character, one of the names in the list. For a
  record that passed the self-terminal test and the activity test, this is exactly when
  its report line is printed.
\<close>

theorem user_filter_iff:
  "(\<not> user_skipped users s \<longleftrightarrow> users = [] \<or> s \<in> set users)
   \<and> (ut_type e = USER_PROCESS \<and> tty_path_of (ut_line e) \<noteq> my
        \<and> ((watch_input opts \<noteq> 0 \<and> st_atime (snd (sc (tty_path_of (ut_line e)))) \<ge> lp) \<or>
            (watch_output opts \<noteq> 0 \<and> st_mtime (snd (sc (tty_path_of (ut_line e)))) \<ge> lp))
       \<longrightarrow> ((\<exists>out. scan_entry opts (Some my) lp lps sc e = Inr out
                \<and> EvStdout (report_line lps e) \<in> set out)
            \<longleftrightarrow> watched_users opts = [] \<or> ut_user e \<in> set (watched_users opts)))"
proof (intro conjI impI)
  show filter: "\<not> user_skipped users s \<longleftrightarrow> users = [] \<or> s \<in> set users" for users s
    by (simp add: user_skipped_def strstrlist_eq)
  assume "ut_type e = USER_PROCESS \<and> tty_path_of (ut_line e) \<noteq> my
        \<and> ((watch_input opts \<noteq> 0 \<and> st_atime (snd (sc (tty_path_of (ut_line e)))) \<ge> lp) \<or>
            (watch_output opts \<noteq> 0 \<and> st_mtime (snd (sc (tty_path_of (ut_line e)))) \<ge> lp))"
  then have "(\<exists>out. scan_entry opts (Some my) lp lps sc e = Inr out
                \<and> EvStdout (report_line lps e) \<in> set out)
            \<longleftrightarrow> \<not> user_skipped (watched_users opts) (ut_user e)"
    by (auto simp: scan_entry_def Let_def strcmp_eq_0_iff)
  then show "(\<exists>out. scan_entry opts (Some my) lp lps sc e = Inr out
                \<and> EvStdout (report_line lps e) \<in> set out)
            \<longleftrightarrow> watched_users opts = [] \<or> ut_user e \<in> set (watched_users opts)"
    by (simp only: filter)
qed

theorem user_filter_iff_witness:
  "\<not> user_skipped [''alice'', ''bob''] ''bob'' \<and> user_skipped [''alice'', ''bob''] ''bo''
   \<and> user_skipped [''alice'', ''bob''] ''Bob''
   \<and> (\<exists>out. scan_entry
            \<lparr>poll_interval = 1, watch_input = 1, watch_output = 0, bell = 0,
               watched_users = [''alice'', ''bob'']\<rparr>
            (Some ''/dev/pts/0'') 100 ''Thu Jan  1 00:01:40 1970''
            (\<lambda>p. (0, \<lparr>st_atime = 100, st_mtime = 50\<rparr>))
            \<lparr>ut_type = 7, ut_line = ''pts/1'', ut_user = ''bob''\<rparr> = Inr out
          \<and> EvStdout (report_line ''Thu Jan  1 00:01:40 1970''
                \<lparr>ut_type = 7, ut_line = ''pts/1'', ut_user = ''bob''\<rparr>) \<in> set out)"
  using user_filter_iff
          [where users = "[''alice'', ''bob'']" and s = "''bob''"
             and e = "\<lparr>ut_type = 7, ut_line = ''pts/1'', ut_user = ''bob''\<rparr>"
             and my = "''/dev/pts/0''"
             and opts = "\<lparr>poll_interval = 1, watch_input = 1, watch_output = 0, bell = 0,
                           watched_users = [''alice'', ''bob'']\<rparr>"
             and sc = "\<lambda>p. (0, \<lparr>st_atime = 100, st_mtime = 50\<rparr>)"
             and lp = 100 and lps = "''Thu Jan  1 00:01:40 1970''"]
        user_filter_iff [where users = "[''alice'', ''bob'']" and s = "''bo''"]
        user_filter_iff [where users = "[''alice'', ''bob'']" and s = "''Bob''"]
  by (simp add: USER_PROCESS_def tty_path_of_def UT_LINESIZE_def)

subsection \<open>The program's own terminal\<close>

text \<open>
  Claim C3. A record whose device path is the path of the program's own terminal prints
  nothing, whatever the options, the user list, the time stamps and the record's type
  and user are; a scan and a whole cycle are the same with and without that record.
\<close>

theorem self_terminal_excluded:
  assumes "tty_path_of (ut_line e) = my"
  shows "scan_entry opts (Some my) lp lps sc e = Inr []
       \<and> scan opts (Some my) lp lps sc (es1 @ e # es2) = scan opts (Some my) lp lps sc (es1 @ es2)
       \<and> cycle opts (Some my) ctime (env\<lparr>env_utmp := es1 @ e # es2\<rparr>)
           = cycle opts (Some my) ctime (env\<lparr>env_utmp := es1 @ es2\<rparr>)"
proof -
  have entry: "scan_entry opts (Some my) lp lps sc e = Inr []" for lp lps sc
    using assms by (simp add: scan_entry_def strcmp_eq_0_iff)
  have whole: "scan opts (Some my) lp lps sc (es1 @ e # es2) = scan opts (Some my) lp lps sc (es1 @ es2)"
    for lp lps sc
    by (simp add: scan_append [of _ _ _ _ _ es1] entry split: prod.splits)
  show ?thesis
    by (simp add: entry whole cycle_def)
qed

theorem self_terminal_excluded_witness:
  "tty_path_of (ut_line \<lparr>ut_type = 7, ut_line = ''pts/0'', ut_user = ''alice''\<rparr>) = ''/dev/pts/0''
   \<and> scan_entry
        \<lparr>poll_interval = 1, watch_input = 1, watch_output = 1, bell = 1, watched_users = []\<rparr>
        (Some ''/dev/pts/0'') 100 ''Thu Jan  1 00:01:40 1970''
        (\<lambda>p. (0, \<lparr>st_atime = 100, st_mtime = 100\<rparr>))
        \<lparr>ut_type = 7, ut_line = ''pts/0'', ut_user = ''alice''\<rparr> = Inr []"
  using self_terminal_excluded
          [where e = "\<lparr>ut_type = 7, ut_line = ''pts/0'', ut_user = ''alice''\<rparr>"
             and my = "''/dev/pts/0''"
             and opts = "\<lparr>poll_interval = 1, watch_input = 1, watch_output = 1, bell = 1,
                           watched_users = []\<rparr>"
             and lp = 100 and lps = "''Thu Jan  1 00:01:40 1970''"
             and sc = "\<lambda>p. (0, \<lparr>st_atime = 100, st_mtime = 100\<rparr>)"]
  by (simp add: tty_path_of_def UT_LINESIZE_def)

subsection \<open>A device whose metadata cannot be read\<close>

text \<open>
  Claim C4. The claim is that a record whose device metadata cannot be read is not
  reported in that cycle, that nothing is printed about the failure, and that the scan
  goes on. The program drops the return value of the call and applies the activity test
  to the buffer the call did not fill. Here input is watched, alice's terminal had
  input, the call fails for bob's terminal, and the buffer still holds what the call for
  alice left there: bob is reported. Nothing else is printed and the scan reaches its
  end.
\<close>

theorem failed_stat_reported:
  "main [''actspy'', ''-i''] (Some ''/dev/pts/0'') (\<lambda>t. ''Thu Jan  1 00:01:40 1970'' @ [CHR 0x0A])
     [\<lparr>env_time = 100,
       env_utmp = [\<lparr>ut_type = 7, ut_line = ''pts/1'', ut_user = ''alice''\<rparr>,
                   \<lparr>ut_type = 7, ut_line = ''pts/2'', ut_user = ''bob''\<rparr>],
       env_stat = (\<lambda>p. if p = ''/dev/pts/1'' then (0, \<lparr>st_atime = 100, st_mtime = 0\<rparr>)
                        else (- 1, \<lparr>st_atime = 100, st_mtime = 0\<rparr>)),
       env_sigint = True\<rparr>] =
     ([],
      [\<lparr>run_last_poll = 100,
        run_last_poll_string = ''Thu Jan  1 00:01:40 1970'',
        run_events =
          [EvTime 100, EvSleep 1, EvSetutxent,
           EvStdout (''Thu Jan  1 00:01:40 1970; pts/1; alice'' @ [CHR 0x0A]),
           EvStdout (''Thu Jan  1 00:01:40 1970; pts/2; bob'' @ [CHR 0x0A]),
           EvEndutxent]\<rparr>],
      Exited 0)"
  by (simp add: main_def options_parse_def getopt_def getopt_char_def cycle_def scan_entry_def
        USER_PROCESS_def tty_path_of_def UT_LINESIZE_def user_skipped_def report_line_def)

subsection \<open>The help option\<close>

text \<open>
  Claim C5. The claim is that \<^verbatim>\<open>-h\<close> prints the usage text and exits with status 0
  without polling. The usage text is printed and no cycle runs, but \<^verbatim>\<open>main\<close> turns
  every non-zero result of \<^verbatim>\<open>options_parse\<close>, also the 1 that stands for a graceful
  exit, into \<^verbatim>\<open>EXIT_FAILURE\<close>.
\<close>

theorem help_exit_status:
  "main [''actspy'', ''-h''] my_tty_path ctime envs =
     ([EvStdout (usage ''actspy'')], [], Exited 1)"
  by (simp add: main_def options_parse_def getopt_def getopt_char_def EXIT_FAILURE_def)

subsection \<open>The poll interval option\<close>

text \<open>
  Claim C6. The claim is that \<^verbatim>\<open>-t 0\<close> and \<^verbatim>\<open>-t\<close> with an argument that is no number
  end the program with a failure status and a diagnostic that names the value, before
  any cycle. For \<^verbatim>\<open>abc\<close> this is what happens. The interval 0 is accepted without a
  diagnostic and the cycle sleeps 0 seconds; an empty argument is accepted as well and
  leaves the default interval.
\<close>

theorem zero_interval_accepted:
  "options_parse [''actspy'', ''-t'', ''0''] =
     (0, \<lparr>poll_interval = 0, watch_input = 0, watch_output = 0, bell = 0, watched_users = []\<rparr>, [])
   \<and> main [''actspy'', ''-t'', ''0''] (Some ''/dev/pts/0'') ctime
        [\<lparr>env_time = 100, env_utmp = [], env_stat = sc, env_sigint = True\<rparr>] =
       ([],
        [\<lparr>run_last_poll = 100, run_last_poll_string = butlast (ctime 100),
          run_events = [EvTime 100, EvSleep 0, EvSetutxent, EvEndutxent]\<rparr>],
        Exited 0)
   \<and> main [''actspy'', ''-t'', ''abc''] my_tty_path ctime envs =
       ([EvStderr (''Invalid timestamp option -t abc.'' @ [CHR 0x0A])], [], Exited 1)
   \<and> main [''actspy'', ''-t'', ''''] (Some ''/dev/pts/0'') ctime
        [\<lparr>env_time = 100, env_utmp = [], env_stat = sc, env_sigint = True\<rparr>] =
       ([],
        [\<lparr>run_last_poll = 100, run_last_poll_string = butlast (ctime 100),
          run_events = [EvTime 100, EvSleep 1, EvSetutxent, EvEndutxent]\<rparr>],
        Exited 0)"
  by (simp add: main_def options_parse_def getopt_def getopt_char_def sscanf_ld_def isspace_def
        isdigit_def digits_value_def LONG_MIN_def LONG_MAX_def cycle_def EXIT_FAILURE_def EOF_def)

subsection \<open>An unknown own terminal\<close>

text \<open>
  Claim C8. The claim is that the program runs safely, with nothing excluded, when the
  path of its own terminal cannot be found. The program compares the null pointer with
  the device path of the first record that is a user process: whatever the options and
  the record are, this is the fault, and the run ends there.
\<close>

theorem null_terminal_faults:
  "scan_entry opts None lp lps sc (e\<lparr>ut_type := USER_PROCESS\<rparr>) = Inl NullDereference
   \<and> main [''actspy'', ''-i''] None ctime
       [\<lparr>env_time = 100,
         env_utmp = [\<lparr>ut_type = 7, ut_line = ''pts/1'', ut_user = ''bob''\<rparr>],
         env_stat = sc,
         env_sigint = False\<rparr>] =
       ([],
        [\<lparr>run_last_poll = 100, run_last_poll_string = butlast (ctime 100),
          run_events = [EvTime 100, EvSleep 1, EvSetutxent]\<rparr>],
        Faulted NullDereference)"
  by (simp add: main_def options_parse_def getopt_def getopt_char_def cycle_def scan_entry_def
        USER_PROCESS_def)

subsection \<open>The time stamp of a cycle\<close>

text \<open>
  Claim C9. When the clock does not go back from one cycle to the next, the time stamp
  that cycle \<open>n + 1\<close> compares the device times with is at least the one of cycle
  \<open>n\<close>. In every cycle the time stamp is the clock's value read at the start of
  the cycle, its rendering is taken from that value, both before the sleep, and they
  are the values that the scan of the cycle uses.
\<close>

theorem baseline_monotone:
  assumes "\<forall>n. Suc n < length envs \<longrightarrow> env_time (envs ! n) \<le> env_time (envs ! Suc n)"
  shows "(\<forall>n. Suc n < length (fst (poll_loop opts my ctime envs)) \<longrightarrow>
            run_last_poll (fst (poll_loop opts my ctime envs) ! n)
              \<le> run_last_poll (fst (poll_loop opts my ctime envs) ! Suc n))
       \<and> (\<forall>n. n < length (fst (poll_loop opts my ctime envs)) \<longrightarrow>
            fst (poll_loop opts my ctime envs) ! n =
              \<lparr>run_last_poll = env_time (envs ! n),
               run_last_poll_string = butlast (ctime (env_time (envs ! n))),
               run_events =
                 [EvTime (env_time (envs ! n)), EvSleep (word_of_int (poll_interval opts)),
                  EvSetutxent]
                 @ fst (scan opts my (env_time (envs ! n)) (butlast (ctime (env_time (envs ! n))))
                          (env_stat (envs ! n)) (env_utmp (envs ! n)))
                 @ (case snd (scan opts my (env_time (envs ! n))
                                (butlast (ctime (env_time (envs ! n))))
                                (env_stat (envs ! n)) (env_utmp (envs ! n))) of
                      None \<Rightarrow> [EvEndutxent] | Some f \<Rightarrow> [])\<rparr>)"
proof (intro conjI allI impI)
  fix n
  assume n: "Suc n < length (fst (poll_loop opts my ctime envs))"
  then have "Suc n < length envs"
    using poll_loop_length [of opts my ctime envs] by simp
  with assms have "env_time (envs ! n) \<le> env_time (envs ! Suc n)"
    by simp
  moreover have "run_last_poll (fst (poll_loop opts my ctime envs) ! n) = env_time (envs ! n)"
    using n by (simp add: poll_loop_nth cycle_run)
  moreover have "run_last_poll (fst (poll_loop opts my ctime envs) ! Suc n) = env_time (envs ! Suc n)"
    using n by (simp add: poll_loop_nth cycle_run)
  ultimately show "run_last_poll (fst (poll_loop opts my ctime envs) ! n)
              \<le> run_last_poll (fst (poll_loop opts my ctime envs) ! Suc n)"
    by simp
next
  fix n
  assume "n < length (fst (poll_loop opts my ctime envs))"
  then show "fst (poll_loop opts my ctime envs) ! n =
              \<lparr>run_last_poll = env_time (envs ! n),
               run_last_poll_string = butlast (ctime (env_time (envs ! n))),
               run_events =
                 [EvTime (env_time (envs ! n)), EvSleep (word_of_int (poll_interval opts)),
                  EvSetutxent]
                 @ fst (scan opts my (env_time (envs ! n)) (butlast (ctime (env_time (envs ! n))))
                          (env_stat (envs ! n)) (env_utmp (envs ! n)))
                 @ (case snd (scan opts my (env_time (envs ! n))
                                (butlast (ctime (env_time (envs ! n))))
                                (env_stat (envs ! n)) (env_utmp (envs ! n))) of
                      None \<Rightarrow> [EvEndutxent] | Some f \<Rightarrow> [])\<rparr>"
    by (simp only: poll_loop_nth cycle_run)
qed

theorem baseline_monotone_witness:
  "length (fst (poll_loop
        \<lparr>poll_interval = 1, watch_input = 1, watch_output = 0, bell = 0, watched_users = []\<rparr>
        (Some ''/dev/pts/0'') (\<lambda>t. ''Thu Jan  1 00:01:40 1970'' @ [CHR 0x0A])
        [\<lparr>env_time = 100, env_utmp = [], env_stat = (\<lambda>p. (0, \<lparr>st_atime = 0, st_mtime = 0\<rparr>)),
           env_sigint = False\<rparr>,
         \<lparr>env_time = 101, env_utmp = [], env_stat = (\<lambda>p. (0, \<lparr>st_atime = 0, st_mtime = 0\<rparr>)),
           env_sigint = True\<rparr>])) = 2
   \<and> run_last_poll (fst (poll_loop
        \<lparr>poll_interval = 1, watch_input = 1, watch_output = 0, bell = 0, watched_users = []\<rparr>
        (Some ''/dev/pts/0'') (\<lambda>t. ''Thu Jan  1 00:01:40 1970'' @ [CHR 0x0A])
        [\<lparr>env_time = 100, env_utmp = [], env_stat = (\<lambda>p. (0, \<lparr>st_atime = 0, st_mtime = 0\<rparr>)),
           env_sigint = False\<rparr>,
         \<lparr>env_time = 101, env_utmp = [], env_stat = (\<lambda>p. (0, \<lparr>st_atime = 0, st_mtime = 0\<rparr>)),
           env_sigint = True\<rparr>]) ! 0)
     \<le> run_last_poll (fst (poll_loop
        \<lparr>poll_interval = 1, watch_input = 1, watch_output = 0, bell = 0, watched_users = []\<rparr>
        (Some ''/dev/pts/0'') (\<lambda>t. ''Thu Jan  1 00:01:40 1970'' @ [CHR 0x0A])
        [\<lparr>env_time = 100, env_utmp = [], env_stat = (\<lambda>p. (0, \<lparr>st_atime = 0, st_mtime = 0\<rparr>)),
           env_sigint = False\<rparr>,
         \<lparr>env_time = 101, env_utmp = [], env_stat = (\<lambda>p. (0, \<lparr>st_atime = 0, st_mtime = 0\<rparr>)),
           env_sigint = True\<rparr>]) ! Suc 0)"
proof -
  define envs where "envs =
        [\<lparr>env_time = 100, env_utmp = [], env_stat = (\<lambda>p. (0, \<lparr>st_atime = 0, st_mtime = 0\<rparr>)),
           env_sigint = False\<rparr>,
         \<lparr>env_time = 101, env_utmp = [], env_stat = (\<lambda>p. (0, \<lparr>st_atime = 0, st_mtime = 0\<rparr>)),
           env_sigint = True\<rparr>]"
  define runs where "runs = fst (poll_loop
        \<lparr>poll_interval = 1, watch_input = 1, watch_output = 0, bell = 0, watched_users = []\<rparr>
        (Some ''/dev/pts/0'') (\<lambda>t. ''Thu Jan  1 00:01:40 1970'' @ [CHR 0x0A]) envs)"
  have clock: "\<forall>n. Suc n < length envs \<longrightarrow> env_time (envs ! n) \<le> env_time (envs ! Suc n)"
    by (simp add: envs_def)
  have len: "length runs = 2"
    by (simp add: runs_def envs_def cycle_def)
  have "\<forall>n. Suc n < length runs \<longrightarrow> run_last_poll (runs ! n) \<le> run_last_poll (runs ! Suc n)"
    unfolding runs_def using baseline_monotone [OF clock] by blast
  then have "run_last_poll (runs ! 0) \<le> run_last_poll (runs ! Suc 0)"
    using len by simp
  with len show ?thesis
    unfolding runs_def envs_def by blast
qed

subsection \<open>A negative poll interval\<close>

text \<open>
  Claim C10. For a minus sign followed by decimal digits of a value above zero as the
  argument of \<^verbatim>\<open>-t\<close>, parsing succeeds and prints nothing, the negative number is
  stored as the poll interval, and every cycle passes it, converted to
  \<^verbatim>\<open>unsigned int\<close>, to \<^verbatim>\<open>sleep\<close>.
\<close>

theorem negative_interval_accepted:
  assumes "ds \<noteq> []" and "\<forall>c\<in>set ds. isdigit c" and "0 < digits_value ds"
  shows "options_parse [prog, ''-t'', CHR ''-'' # ds] =
           (0, \<lparr>poll_interval = max LONG_MIN (- digits_value ds), watch_input = 0,
                 watch_output = 0, bell = 0, watched_users = []\<rparr>, [])
       \<and> max LONG_MIN (- digits_value ds) < 0
       \<and> fst (main [prog, ''-t'', CHR ''-'' # ds] my ctime envs) = []
       \<and> (\<forall>run \<in> set (fst (snd (main [prog, ''-t'', CHR ''-'' # ds] my ctime envs))).
            run_events run ! 1 = EvSleep (word_of_int (max LONG_MIN (- digits_value ds))))"
proof -
  have parse: "options_parse [prog, ''-t'', CHR ''-'' # ds] =
           (0, \<lparr>poll_interval = max LONG_MIN (- digits_value ds), watch_input = 0,
                 watch_output = 0, bell = 0, watched_users = []\<rparr>, [])"
  proof -
    have digits: "takeWhile isdigit ds = ds"
      using assms(2) by (simp add: takeWhile_eq_all_conv)
    show ?thesis
      using assms(1,3)
      by (simp add: options_parse_def getopt_def getopt_char_def sscanf_ld_def isspace_def
            LONG_MIN_def LONG_MAX_def Let_def digits)
  qed
  have neg: "max LONG_MIN (- digits_value ds) < 0"
    using assms(3) by (simp add: LONG_MIN_def)
  have quiet: "fst (main [prog, ''-t'', CHR ''-'' # ds] my ctime envs) = []"
    by (simp add: main_def parse split: prod.splits)
  have sleep: "\<forall>run \<in> set (fst (snd (main [prog, ''-t'', CHR ''-'' # ds] my ctime envs))).
            run_events run ! 1 = EvSleep (word_of_int (max LONG_MIN (- digits_value ds)))"
    using poll_loop_runs_sleep
      [of _ "\<lparr>poll_interval = max LONG_MIN (- digits_value ds), watch_input = 0,
                 watch_output = 0, bell = 0, watched_users = []\<rparr>" my ctime envs]
    by (auto simp: main_def parse split: prod.splits)
  show ?thesis
    using parse neg quiet sleep by blast
qed

theorem negative_interval_accepted_witness:
  "options_parse [''actspy'', ''-t'', ''-5''] =
     (0, \<lparr>poll_interval = - 5, watch_input = 0, watch_output = 0, bell = 0,
           watched_users = []\<rparr>, [])
   \<and> main [''actspy'', ''-t'', ''-5''] (Some ''/dev/pts/0'') (\<lambda>t. ''Thu Jan  1 00:01:40 1970'' @ [CHR 0x0A])
        [\<lparr>env_time = 100, env_utmp = [], env_stat = (\<lambda>p. (0, \<lparr>st_atime = 0, st_mtime = 0\<rparr>)),
           env_sigint = True\<rparr>] =
       ([],
        [\<lparr>run_last_poll = 100, run_last_poll_string = ''Thu Jan  1 00:01:40 1970'',
          run_events = [EvTime 100, EvSleep 4294967291, EvSetutxent, EvEndutxent]\<rparr>],
        Exited 0)"
proof -
  have digits: "''5'' \<noteq> [] \<and> (\<forall>c\<in>set ''5''. isdigit c) \<and> 0 < digits_value ''5''"
    by (simp add: isdigit_def digits_value_def)
  have stored: "max LONG_MIN (- digits_value ''5'') = - 5"
    by (simp add: LONG_MIN_def digits_value_def)
  have parse: "options_parse [''actspy'', ''-t'', ''-5''] =
     (0, \<lparr>poll_interval = - 5, watch_input = 0, watch_output = 0, bell = 0,
           watched_users = []\<rparr>, [])"
    using negative_interval_accepted [where ds = "''5''" and prog = "''actspy''"] digits
    by (simp add: stored)
  show ?thesis
    by (simp add: parse main_def cycle_def)
qed

end
